theory Spec2Isabelle
  imports Main "HOL-Library.AList" "HOL-Library.Multiset"
begin

section \<open>Paths\<close>

text \<open>
  The canonize stage of lorch (\<^verbatim>\<open>lorch/stages/canonize.py\<close>) reads a vault of
  ingested records, feeds every part of every LATEST run to the external canonizer and
  writes one canonical JSONL file per account.

  A \<open>pathlib.Path\<close> is an absolute path, kept as the list of its components. Joining a
  path with a string (\<open>p / s\<close>) splits the string at the separator, drops empty and
  \<open>.\<close> components, and starts again from the root when the string is absolute. A
  component \<open>..\<close> is kept as a name, as pathlib keeps it.
\<close>

type_synonym path = "string list"

fun split_sep :: "string \<Rightarrow> string list" where
  "split_sep [] = [[]]"
| "split_sep (c # cs) =
     (if c = CHR ''/'' then [] # split_sep cs
      else (case split_sep cs of [] \<Rightarrow> [[c]] | w # ws \<Rightarrow> (c # w) # ws))"

definition path_parts :: "string \<Rightarrow> string list" where
  "path_parts s = filter (\<lambda>c. c \<noteq> [] \<and> c \<noteq> ''.'') (split_sep s)"

definition joinpath :: "path \<Rightarrow> string \<Rightarrow> path" where
  "joinpath p s =
     (case s of [] \<Rightarrow> p
      | c # _ \<Rightarrow> if c = CHR ''/'' then path_parts s else p @ path_parts s)"

definition name_of :: "path \<Rightarrow> string" where
  "name_of p = (case rev p of [] \<Rightarrow> [] | n # _ \<Rightarrow> n)"

definition str_path :: "path \<Rightarrow> string" where
  "str_path p = (if p = [] then ''/'' else concat (map (\<lambda>c. CHR ''/'' # c) p))"

definition replace_slash :: "string \<Rightarrow> string" where
  "replace_slash s = map (\<lambda>c. if c = CHR ''/'' then CHR ''_'' else c) s"

definition ends_with :: "string \<Rightarrow> string \<Rightarrow> bool" where
  "ends_with s suf = (length suf \<le> length s \<and> drop (length s - length suf) s = suf)"

section \<open>Exceptions and log records\<close>

text \<open>
  Every exception the stage can meet is a value. A message built by an f-string is kept
  as the constructor of that f-string applied to the values it interpolates:
  \<open>TransformMetadataNotFound meta\<close> is
  \<^verbatim>\<open>FileNotFoundError(f"Transform metadata not found: {transform_meta}")\<close> and
  \<open>CanonizerFailed name code err\<close> is the \<^verbatim>\<open>RuntimeError\<close> of
  \<^verbatim>\<open>_transform_gzip_part\<close>, whose third argument is the text after the colon when
  the message has one.
\<close>

datatype exn =
    FileNotFoundError path
  | IsADirectoryError path
  | NotADirectoryError path
  | FileExistsError path
  | ValueError string
  | OSError string
  | KeyError string
  | TransformMetadataNotFound path
  | CanonizerFailed string int "string option"

datatype level = DEBUG | INFO | WARNING | ERROR

datatype message =
    CanonizeStarted nat
  | NoManifestsFound string
  | ManifestsDiscovered nat string
  | ManifestTransformed nat path
  | TransformError path exn
  | NoLatestFound path
  | InvalidLatest path
  | LatestNonExistentRun path
  | FoundLatestManifest string string string
  | CouldNotReadLatest path exn
  | NoPartsFound path
  | ProcessingParts nat
  | ClearingExisting path
  | PartNotFound path
  | TransformingPart string

section \<open>The file system\<close>

text \<open>
  The state the stage works on: the files, as an association list from paths to nodes in
  listing order, and the records the logger has received. The root is always a
  directory. Every operation reads the files through \<open>node_at\<close>.
\<close>

datatype node = Dir | File string

record state =
  files :: "(path \<times> node) list"
  log_records :: "(level \<times> message) list"

definition log_at :: "level \<Rightarrow> message \<Rightarrow> state \<Rightarrow> state" where
  "log_at lvl msg st = st\<lparr>log_records := log_records st @ [(lvl, msg)]\<rparr>"

definition node_at :: "state \<Rightarrow> path \<Rightarrow> node option" where
  "node_at st p = (if p = [] then Some Dir else map_of (files st) p)"

definition path_exists :: "state \<Rightarrow> path \<Rightarrow> bool" where
  "path_exists st p = (case node_at st p of None \<Rightarrow> False | Some _ \<Rightarrow> True)"

definition is_dir :: "state \<Rightarrow> path \<Rightarrow> bool" where
  "is_dir st p = (case node_at st p of Some Dir \<Rightarrow> True | _ \<Rightarrow> False)"

definition put_node :: "path \<Rightarrow> node \<Rightarrow> state \<Rightarrow> state" where
  "put_node p n st = st\<lparr>files := AList.update p n (files st)\<rparr>"

definition del_node :: "path \<Rightarrow> state \<Rightarrow> state" where
  "del_node p st = st\<lparr>files := AList.delete p (files st)\<rparr>"

definition children :: "state \<Rightarrow> path \<Rightarrow> path list" where
  "children st d = filter (\<lambda>q. q \<noteq> [] \<and> butlast q = d) (map fst (files st))"

definition iterdir :: "state \<Rightarrow> path \<Rightarrow> exn + path list" where
  "iterdir st d =
     (case node_at st d of
        None \<Rightarrow> Inl (FileNotFoundError d)
      | Some (File _) \<Rightarrow> Inl (NotADirectoryError d)
      | Some Dir \<Rightarrow> Inr (children st d))"

definition read_text :: "state \<Rightarrow> path \<Rightarrow> exn + string" where
  "read_text st p =
     (case node_at st p of
        None \<Rightarrow> Inl (FileNotFoundError p)
      | Some Dir \<Rightarrow> Inl (IsADirectoryError p)
      | Some (File c) \<Rightarrow> Inr c)"

text \<open>\<^verbatim>\<open>Path.mkdir(parents=True, exist_ok=True)\<close>: missing directories are made from
  the root down; a file in the way is an error.\<close>

fun mkdir_from :: "path \<Rightarrow> string list \<Rightarrow> state \<Rightarrow> exn + state" where
  "mkdir_from pre [] st = Inr st"
| "mkdir_from pre (c # cs) st =
     (case node_at st (pre @ [c]) of
        None \<Rightarrow> mkdir_from (pre @ [c]) cs (put_node (pre @ [c]) Dir st)
      | Some Dir \<Rightarrow> mkdir_from (pre @ [c]) cs st
      | Some (File _) \<Rightarrow>
          Inl (if cs = [] then FileExistsError (pre @ [c])
               else NotADirectoryError (pre @ c # cs)))"

definition mkdir_parents :: "path \<Rightarrow> state \<Rightarrow> exn + state" where
  "mkdir_parents p st = mkdir_from [] p st"

definition unlink :: "path \<Rightarrow> state \<Rightarrow> exn + state" where
  "unlink p st =
     (case node_at st p of
        None \<Rightarrow> Inl (FileNotFoundError p)
      | Some Dir \<Rightarrow> Inl (IsADirectoryError p)
      | Some (File _) \<Rightarrow> Inr (del_node p st))"

text \<open>\<^verbatim>\<open>open(p, "a")\<close> followed by one \<^verbatim>\<open>write\<close>: the text goes after what the
  file holds; a missing file is created when its directory exists.\<close>

definition open_append :: "path \<Rightarrow> string \<Rightarrow> state \<Rightarrow> exn + state" where
  "open_append p s st =
     (case node_at st p of
        Some Dir \<Rightarrow> Inl (IsADirectoryError p)
      | Some (File c) \<Rightarrow> Inr (put_node p (File (c @ s)) st)
      | None \<Rightarrow>
          (case node_at st (butlast p) of
             Some Dir \<Rightarrow> Inr (put_node p (File s) st)
           | Some (File _) \<Rightarrow> Inl (NotADirectoryError p)
           | None \<Rightarrow> Inl (FileNotFoundError p)))"

text \<open>\<^verbatim>\<open>output_dir.glob("*.jsonl")\<close>: the entries of the directory itself whose name
  ends in \<open>.jsonl\<close>; nothing when the path is not a directory.\<close>

definition glob_jsonl :: "state \<Rightarrow> path \<Rightarrow> path list" where
  "glob_jsonl st d =
     (if is_dir st d then filter (\<lambda>q. ends_with (name_of q) ''.jsonl'') (children st d)
      else [])"

section \<open>Documents, configuration and the outside world\<close>

text \<open>
  The JSON documents, decoded into the shapes of the vault layout; a field the document
  lacks is \<open>None\<close>. The decoder, gzip and the canonizer process are not part of the
  stage: they are the fields of \<open>runtime\<close>. A decoder answers \<open>Inl\<close> when
  \<^verbatim>\<open>json.load\<close> raises or the document is not an object.
\<close>

record latest =
  dt :: "string option"
  run_id :: "string option"

record part =
  seq :: "int option"
  path :: "string option"

record manifest =
  account :: "string option"
  source :: "string option"
  parts :: "part list option"

record completed_process =
  returncode :: int
  stdout :: string
  stderr :: string

record runtime =
  json_load_latest :: "string \<Rightarrow> exn + latest"
  json_load_manifest :: "string \<Rightarrow> exn + manifest"
  gzip_decompress :: "string \<Rightarrow> exn + string"
  subprocess_run :: "string list \<Rightarrow> string \<Rightarrow> exn + completed_process"

record mapping =
  source_pattern :: string
  transform :: string
  output_name :: "string option"

record config =
  name :: string
  venv_path :: path
  input_dir :: path
  output_dir :: path
  transform_registry :: path
  mappings :: "mapping list"

datatype error_msg = FailedToTransform path exn

datatype stage_error = TransformsFailed nat error_msg

datatype meta_value = MStr string | MNat nat

record stage_result =
  stage_name :: string
  success :: bool
  duration_seconds :: nat
  records_processed :: "nat option"
  output_files :: "path list option"
  metadata :: "(string \<times> meta_value) list option"
  error_message :: "stage_error option"

section \<open>The part transformer\<close>

definition count_newlines :: "string \<Rightarrow> nat" where
  "count_newlines s = count_list s (CHR 0x0A)"

definition can_command :: "config \<Rightarrow> path \<Rightarrow> string list" where
  "can_command cfg transform_meta =
     [str_path (venv_path cfg @ [''bin'', ''can'']), ''transform'', ''run'', ''--meta'',
      str_path transform_meta]"

definition gzip_open_read :: "runtime \<Rightarrow> state \<Rightarrow> path \<Rightarrow> exn + string" where
  "gzip_open_read rt st p =
     (case read_text st p of Inl e \<Rightarrow> Inl e | Inr raw \<Rightarrow> gzip_decompress rt raw)"

definition transform_gzip_part ::
  "runtime \<Rightarrow> config \<Rightarrow> path \<Rightarrow> path \<Rightarrow> path \<Rightarrow> state \<Rightarrow> (exn + nat) \<times> state" where
  "transform_gzip_part rt cfg part_path transform_meta output_file st =
     (let command = can_command cfg transform_meta;
          st1 = log_at DEBUG (TransformingPart (name_of part_path)) st
      in case gzip_open_read rt st1 part_path of
           Inl e \<Rightarrow> (Inl e, st1)
         | Inr input_data \<Rightarrow>
            (case subprocess_run rt command input_data of
               Inl e \<Rightarrow> (Inl e, st1)
             | Inr result \<Rightarrow>
                 if returncode result \<noteq> 0
                 then (Inl (CanonizerFailed (name_of part_path) (returncode result)
                         (if stderr result = [] then None
                          else Some (take 500 (stderr result)))), st1)
                 else (case open_append output_file (stdout result) st1 of
                         Inl e \<Rightarrow> (Inl e, st1)
                       | Inr st2 \<Rightarrow> (Inr (count_newlines (stdout result)), st2))))"

section \<open>The manifest reader\<close>

definition part_key :: "part \<Rightarrow> int" where
  "part_key p = (case seq p of None \<Rightarrow> 0 | Some n \<Rightarrow> n)"

definition manifest_parts :: "manifest \<Rightarrow> part list" where
  "manifest_parts m = (case parts m of None \<Rightarrow> [] | Some l \<Rightarrow> l)"

definition transform_meta_path :: "path \<Rightarrow> string \<Rightarrow> path" where
  "transform_meta_path registry transform_name =
     joinpath registry (transform_name @ ''.meta.yaml'')"

definition account_output_dir :: "path \<Rightarrow> manifest \<Rightarrow> path" where
  "account_output_dir out m =
     joinpath out (replace_slash (case source m of None \<Rightarrow> ''unknown'' | Some s \<Rightarrow> s))"

definition output_file_path :: "path \<Rightarrow> manifest \<Rightarrow> path" where
  "output_file_path out m =
     joinpath (account_output_dir out m)
       ((case account m of None \<Rightarrow> ''unknown'' | Some a \<Rightarrow> a) @ ''.jsonl'')"

text \<open>The loop over the sorted parts (\<^verbatim>\<open>for part in sorted(parts, ...)\<close>).\<close>

fun process_parts ::
  "runtime \<Rightarrow> config \<Rightarrow> path \<Rightarrow> path \<Rightarrow> path \<Rightarrow> part list \<Rightarrow> nat \<Rightarrow> state
     \<Rightarrow> (exn + nat) \<times> state" where
  "process_parts rt cfg run_dir transform_meta output_file [] total_records st =
     (Inr total_records, st)"
| "process_parts rt cfg run_dir transform_meta output_file (p # ps) total_records st =
     (case path p of
        None \<Rightarrow> (Inl (KeyError ''path''), st)
      | Some rel \<Rightarrow>
          if \<not> path_exists st (joinpath run_dir rel)
          then process_parts rt cfg run_dir transform_meta output_file ps total_records
                 (log_at WARNING (PartNotFound (joinpath run_dir rel)) st)
          else (case transform_gzip_part rt cfg (joinpath run_dir rel) transform_meta
                       output_file st of
                  (Inl e, st') \<Rightarrow> (Inl e, st')
                | (Inr records, st') \<Rightarrow>
                    process_parts rt cfg run_dir transform_meta output_file ps
                      (total_records + records) st'))"

definition read_manifest :: "runtime \<Rightarrow> state \<Rightarrow> path \<Rightarrow> exn + manifest" where
  "read_manifest rt st manifest_path =
     (case read_text st manifest_path of
        Inl e \<Rightarrow> Inl e
      | Inr txt \<Rightarrow> json_load_manifest rt txt)"

definition transform_from_manifest ::
  "runtime \<Rightarrow> config \<Rightarrow> path \<Rightarrow> string \<Rightarrow> path \<Rightarrow> path \<Rightarrow> string \<Rightarrow> state
     \<Rightarrow> (exn + nat) \<times> state" where
  "transform_from_manifest rt cfg manifest_path transform_name registry out out_name st =
     (case read_manifest rt st manifest_path of
        Inl e \<Rightarrow> (Inl e, st)
      | Inr m \<Rightarrow>
         (let run_dir = butlast manifest_path;
              ps = manifest_parts m
          in if ps = [] then (Inr 0, log_at WARNING (NoPartsFound manifest_path) st)
             else
              (let st1 = log_at INFO (ProcessingParts (length ps)) st;
                   transform_meta = transform_meta_path registry transform_name
               in if \<not> path_exists st1 transform_meta
                  then (Inl (TransformMetadataNotFound transform_meta), st1)
                  else
                   (case mkdir_parents (account_output_dir out m) st1 of
                      Inl e \<Rightarrow> (Inl e, st1)
                    | Inr st2 \<Rightarrow>
                       (let output_file = output_file_path out m
                        in if path_exists st2 output_file
                           then (case unlink output_file
                                        (log_at DEBUG (ClearingExisting output_file) st2) of
                                   Inl e \<Rightarrow>
                                     (Inl e, log_at DEBUG (ClearingExisting output_file) st2)
                                 | Inr st3 \<Rightarrow>
                                     process_parts rt cfg run_dir transform_meta output_file
                                       (sort_key part_key ps) 0 st3)
                           else process_parts rt cfg run_dir transform_meta output_file
                                  (sort_key part_key ps) 0 st2)))))"

section \<open>The manifest locator\<close>

text \<open>One turn of the loop over the account directories, with its
  \<^verbatim>\<open>continue\<close>s and its \<^verbatim>\<open>try\<close>/\<^verbatim>\<open>except Exception\<close>.\<close>

definition latest_manifest_path :: "path \<Rightarrow> string \<Rightarrow> string \<Rightarrow> path" where
  "latest_manifest_path account_dir d r =
     joinpath (joinpath (joinpath account_dir (''dt='' @ d)) (''run_id='' @ r))
       ''manifest.json''"

definition scan_account :: "runtime \<Rightarrow> path \<Rightarrow> path list \<Rightarrow> state \<Rightarrow> path list \<times> state" where
  "scan_account rt account_dir manifests st =
     (if \<not> is_dir st account_dir then (manifests, st)
      else if \<not> path_exists st (account_dir @ [''LATEST.json''])
      then (manifests, log_at DEBUG (NoLatestFound account_dir) st)
      else
       (case read_text st (account_dir @ [''LATEST.json'']) of
          Inl e \<Rightarrow> (manifests, log_at WARNING (CouldNotReadLatest account_dir e) st)
        | Inr txt \<Rightarrow>
           (case json_load_latest rt txt of
              Inl e \<Rightarrow> (manifests, log_at WARNING (CouldNotReadLatest account_dir e) st)
            | Inr latest_data \<Rightarrow>
               (case dt latest_data of
                  None \<Rightarrow> (manifests, log_at WARNING (InvalidLatest account_dir) st)
                | Some d \<Rightarrow>
                   (case run_id latest_data of
                      None \<Rightarrow> (manifests, log_at WARNING (InvalidLatest account_dir) st)
                    | Some r \<Rightarrow>
                        if d = [] \<or> r = []
                        then (manifests, log_at WARNING (InvalidLatest account_dir) st)
                        else if \<not> path_exists st (latest_manifest_path account_dir d r)
                        then (manifests,
                              log_at WARNING
                                (LatestNonExistentRun (latest_manifest_path account_dir d r)) st)
                        else (manifests @ [latest_manifest_path account_dir d r],
                              log_at DEBUG
                                (FoundLatestManifest (name_of account_dir) d r) st))))))"

fun scan_accounts :: "runtime \<Rightarrow> path list \<Rightarrow> path list \<Rightarrow> state \<Rightarrow> path list \<times> state" where
  "scan_accounts rt [] manifests st = (manifests, st)"
| "scan_accounts rt (account_dir # rest) manifests st =
     (case scan_account rt account_dir manifests st of
        (manifests', st') \<Rightarrow> scan_accounts rt rest manifests' st')"

definition find_manifests ::
  "runtime \<Rightarrow> path \<Rightarrow> string \<Rightarrow> state \<Rightarrow> (exn + path list) \<times> state" where
  "find_manifests rt vault_root source_path st =
     (let source_dir = joinpath vault_root source_path
      in if \<not> path_exists st source_dir then (Inr [], st)
         else (case iterdir st source_dir of
                 Inl e \<Rightarrow> (Inl e, st)
               | Inr entries \<Rightarrow>
                   (case scan_accounts rt entries [] st of
                      (manifests, st') \<Rightarrow> (Inr manifests, st'))))"

section \<open>The mapping orchestrator\<close>

text \<open>The inner loop over the manifests of one mapping: an exception of
  \<^verbatim>\<open>_transform_from_manifest\<close> is caught, recorded and logged.\<close>

fun process_manifests ::
  "runtime \<Rightarrow> config \<Rightarrow> mapping \<Rightarrow> path list \<Rightarrow> nat \<times> error_msg list \<Rightarrow> state
     \<Rightarrow> (nat \<times> error_msg list) \<times> state" where
  "process_manifests rt cfg mp [] acc st = (acc, st)"
| "process_manifests rt cfg mp (manifest_path # rest) acc st =
     (case transform_from_manifest rt cfg manifest_path (transform mp)
             (transform_registry cfg) (output_dir cfg)
             (case output_name mp of None \<Rightarrow> ''canonical'' | Some n \<Rightarrow> n) st of
        (Inr n, st') \<Rightarrow>
          process_manifests rt cfg mp rest (fst acc + n, snd acc)
            (log_at INFO (ManifestTransformed n (butlast manifest_path)) st')
      | (Inl e, st') \<Rightarrow>
          process_manifests rt cfg mp rest
            (fst acc, snd acc @ [FailedToTransform manifest_path e])
            (log_at ERROR (TransformError manifest_path e) st'))"

fun process_mappings ::
  "runtime \<Rightarrow> config \<Rightarrow> mapping list \<Rightarrow> nat \<times> error_msg list \<Rightarrow> state
     \<Rightarrow> (exn + nat \<times> error_msg list) \<times> state" where
  "process_mappings rt cfg [] acc st = (Inr acc, st)"
| "process_mappings rt cfg (mp # rest) acc st =
     (case find_manifests rt (input_dir cfg) (source_pattern mp) st of
        (Inl e, st') \<Rightarrow> (Inl e, st')
      | (Inr manifests, st') \<Rightarrow>
          if manifests = []
          then process_mappings rt cfg rest acc
                 (log_at WARNING (NoManifestsFound (source_pattern mp)) st')
          else (case process_manifests rt cfg mp manifests acc
                       (log_at INFO
                          (ManifestsDiscovered (length manifests) (source_pattern mp)) st') of
                  (acc', st'') \<Rightarrow> process_mappings rt cfg rest acc' st''))"

definition stage_outcome ::
  "config \<Rightarrow> nat \<Rightarrow> error_msg list \<Rightarrow> path list \<Rightarrow> stage_result" where
  "stage_outcome cfg total_records errs outs =
     (if errs \<noteq> [] \<and> outs = []
      then \<lparr>stage_name = name cfg, success = False, duration_seconds = 0,
            records_processed = None, output_files = None, metadata = None,
            error_message = Some (TransformsFailed (length errs) (hd errs))\<rparr>
      else \<lparr>stage_name = name cfg, success = True, duration_seconds = 0,
            records_processed = Some total_records, output_files = Some outs,
            metadata = Some
              [(''transform_registry'', MStr (str_path (transform_registry cfg))),
               (''mappings_applied'', MNat (length (mappings cfg))),
               (''manifests_processed'', MNat total_records),
               (''errors'', MNat (length errs))],
            error_message = None\<rparr>)"

definition execute :: "runtime \<Rightarrow> config \<Rightarrow> state \<Rightarrow> (exn + stage_result) \<times> state" where
  "execute rt cfg st =
     (case process_mappings rt cfg (mappings cfg) (0, [])
             (log_at INFO (CanonizeStarted (length (mappings cfg))) st) of
        (Inl e, st') \<Rightarrow> (Inl e, st')
      | (Inr acc, st') \<Rightarrow>
          (Inr (stage_outcome cfg (fst acc) (snd acc) (glob_jsonl st' (output_dir cfg))), st'))"

section \<open>Observations\<close>

text \<open>What the statements below read off a state: the text of a file, the parts the log
  says were handed to the canonizer, the parts it says were not found; and, for one part
  of a manifest, the file it names, whether that file is there, and what the canonizer
  prints for it.\<close>

definition file_text :: "state \<Rightarrow> path \<Rightarrow> string" where
  "file_text st p = (case node_at st p of Some (File c) \<Rightarrow> c | _ \<Rightarrow> [])"

fun transformed :: "(level \<times> message) list \<Rightarrow> string list" where
  "transformed [] = []"
| "transformed ((DEBUG, TransformingPart n) # r) = n # transformed r"
| "transformed (_ # r) = transformed r"

fun part_warnings :: "(level \<times> message) list \<Rightarrow> path list" where
  "part_warnings [] = []"
| "part_warnings ((WARNING, PartNotFound q) # r) = q # part_warnings r"
| "part_warnings (_ # r) = part_warnings r"

definition part_file :: "path \<Rightarrow> part \<Rightarrow> path" where
  "part_file run_dir p = joinpath run_dir (case path p of None \<Rightarrow> [] | Some rel \<Rightarrow> rel)"

definition part_present :: "state \<Rightarrow> path \<Rightarrow> part \<Rightarrow> bool" where
  "part_present st run_dir p = path_exists st (part_file run_dir p)"

definition part_output ::
  "runtime \<Rightarrow> config \<Rightarrow> state \<Rightarrow> path \<Rightarrow> path \<Rightarrow> part \<Rightarrow> string" where
  "part_output rt cfg st run_dir transform_meta p =
     (case gzip_open_read rt st (part_file run_dir p) of
        Inl _ \<Rightarrow> []
      | Inr input_data \<Rightarrow>
          (case subprocess_run rt (can_command cfg transform_meta) input_data of
             Inl _ \<Rightarrow> []
           | Inr result \<Rightarrow> stdout result))"

definition parts_in_order :: "state \<Rightarrow> path \<Rightarrow> part list \<Rightarrow> part list" where
  "parts_in_order st run_dir ps = filter (part_present st run_dir) (sort_key part_key ps)"

definition part_transformable ::
  "runtime \<Rightarrow> config \<Rightarrow> state \<Rightarrow> path \<Rightarrow> path \<Rightarrow> part \<Rightarrow> bool" where
  "part_transformable rt cfg st run_dir transform_meta p =
     (case gzip_open_read rt st (part_file run_dir p) of
        Inl _ \<Rightarrow> False
      | Inr input_data \<Rightarrow>
          (case subprocess_run rt (can_command cfg transform_meta) input_data of
             Inl _ \<Rightarrow> False
           | Inr result \<Rightarrow> returncode result = 0))"







text \<open>The locator in the words of its contract: the manifest of an account directory
  whose \<open>LATEST.json\<close> can be read and decoded, names a non-empty \<open>dt\<close> and
  \<open>run_id\<close>, and points to a manifest that exists.\<close>

definition account_manifest :: "runtime \<Rightarrow> state \<Rightarrow> path \<Rightarrow> path option" where
  "account_manifest rt st account_dir =
     (case read_text st (account_dir @ [''LATEST.json'']) of
        Inl _ \<Rightarrow> None
      | Inr txt \<Rightarrow>
         (case json_load_latest rt txt of
            Inl _ \<Rightarrow> None
          | Inr l \<Rightarrow>
             (case (dt l, run_id l) of
                (Some d, Some r) \<Rightarrow>
                  if d \<noteq> [] \<and> r \<noteq> [] \<and> path_exists st (latest_manifest_path account_dir d r)
                  then Some (latest_manifest_path account_dir d r) else None
              | _ \<Rightarrow> None)))"

section \<open>A sample vault\<close>

text \<open>A small vault with two sources, used to run the stage on concrete input. The
  decoders know the documents of this vault by their text; gzip strips a leading \<open>z\<close>;
  the canonizer echoes its input and fails on the input \<open>bad\<close>.\<close>

definition sample_runtime :: runtime where
  "sample_runtime =
     \<lparr>json_load_latest = (\<lambda>txt.
        if txt = ''latest r1'' then Inr \<lparr>dt = Some ''2024-01-01'', run_id = Some ''r1''\<rparr>
        else if txt = ''latest r9'' then Inr \<lparr>dt = Some ''2024-01-01'', run_id = Some ''r9''\<rparr>
        else if txt = ''latest no dt'' then Inr \<lparr>dt = Some [], run_id = Some ''r1''\<rparr>
        else Inl (ValueError ''Expecting value'')),
      json_load_manifest = (\<lambda>txt.
        if txt = ''manifest ben'' then
          Inr \<lparr>account = Some ''ben'', source = Some ''email/gmail'',
               parts = Some [\<lparr>seq = Some 2, path = Some ''part-002.jsonl.gz''\<rparr>,
                             \<lparr>seq = Some 0, path = Some ''part-000.jsonl.gz''\<rparr>,
                             \<lparr>seq = Some 1, path = Some ''part-001.jsonl.gz''\<rparr>]\<rparr>
        else if txt = ''manifest gap'' then
          Inr \<lparr>account = Some ''ben'', source = Some ''email/gmail'',
               parts = Some [\<lparr>seq = Some 0, path = Some ''part-000.jsonl.gz''\<rparr>,
                             \<lparr>seq = Some 1, path = Some ''part-001.jsonl.gz''\<rparr>,
                             \<lparr>seq = Some 2, path = Some ''part-002.jsonl.gz''\<rparr>]\<rparr>
        else if txt = ''manifest ann'' then
          Inr \<lparr>account = Some ''ann'', source = Some ''forms/intake'',
               parts = Some [\<lparr>seq = Some 0, path = Some ''part-000.jsonl.gz''\<rparr>]\<rparr>
        else if txt = ''manifest none'' then
          Inr \<lparr>account = Some ''ben'', source = Some ''email/gmail'', parts = Some []\<rparr>
        else Inl (ValueError ''Expecting value'')),
      gzip_decompress = (\<lambda>raw.
        case raw of [] \<Rightarrow> Inl (OSError ''Not a gzipped file'')
        | c # t \<Rightarrow> if c = CHR ''z'' then Inr t else Inl (OSError ''Not a gzipped file'')),
      subprocess_run = (\<lambda>command input_data.
        if input_data = ''bad''
        then Inr \<lparr>returncode = 2, stdout = [], stderr = ''boom''\<rparr>
        else Inr \<lparr>returncode = 0, stdout = input_data, stderr = []\<rparr>)\<rparr>"

definition gmail_mapping :: mapping where
  "gmail_mapping =
     \<lparr>source_pattern = ''email/gmail'', transform = ''gmail_v1'', output_name = None\<rparr>"

definition intake_mapping :: mapping where
  "intake_mapping =
     \<lparr>source_pattern = ''forms/intake'', transform = ''intake_v1'', output_name = None\<rparr>"

definition sample_config :: "mapping list \<Rightarrow> config" where
  "sample_config ms =
     \<lparr>name = ''canonize'', venv_path = [''venv''], input_dir = [''vault''],
      output_dir = [''out''], transform_registry = [''registry''], mappings = ms\<rparr>"

definition gmail_dir :: path where
  "gmail_dir = [''vault'', ''email'', ''gmail'']"

definition ben_run :: path where
  "ben_run = gmail_dir @ [''ben'', ''dt=2024-01-01'', ''run_id=r1'']"

definition gap_run :: path where
  "gap_run = gmail_dir @ [''ben'', ''dt=2024-01-01'', ''run_id=r0'']"

definition none_run :: path where
  "none_run = gmail_dir @ [''ben'', ''dt=2024-01-01'', ''run_id=r2'']"

definition ann_run :: path where
  "ann_run = [''vault'', ''forms'', ''intake'', ''ann'', ''dt=2024-01-01'', ''run_id=r1'']"

definition gmail_meta :: path where
  "gmail_meta = [''registry'', ''gmail_v1.meta.yaml'']"

definition ben_output :: path where
  "ben_output = [''out'', ''email_gmail'', ''ben.jsonl'']"

definition sample_files :: "(path \<times> node) list" where
  "sample_files =
     [([''vault''], Dir),
      ([''vault'', ''email''], Dir),
      (gmail_dir, Dir),
      (gmail_dir @ [''README''], File ''accounts''),
      (gmail_dir @ [''amy''], Dir),
      (gmail_dir @ [''ben''], Dir),
      (gmail_dir @ [''ben'', ''LATEST.json''], File ''latest r1''),
      (gmail_dir @ [''ben'', ''dt=2024-01-01''], Dir),
      (ben_run, Dir),
      (ben_run @ [''manifest.json''], File ''manifest ben''),
      (ben_run @ [''part-000.jsonl.gz''], File ''za\<newline>''),
      (ben_run @ [''part-001.jsonl.gz''], File ''zb\<newline>c\<newline>''),
      (ben_run @ [''part-002.jsonl.gz''], File ''zd\<newline>''),
      (ben_run @ [''bad.jsonl.gz''], File ''zbad''),
      (gap_run, Dir),
      (gap_run @ [''manifest.json''], File ''manifest gap''),
      (gap_run @ [''part-000.jsonl.gz''], File ''zx\<newline>''),
      (gap_run @ [''part-002.jsonl.gz''], File ''zy\<newline>y\<newline>''),
      (none_run, Dir),
      (none_run @ [''manifest.json''], File ''manifest none''),
      (gmail_dir @ [''cal''], Dir),
      (gmail_dir @ [''cal'', ''LATEST.json''], File ''{not json''),
      (gmail_dir @ [''dan''], Dir),
      (gmail_dir @ [''dan'', ''LATEST.json''], File ''latest r9''),
      (gmail_dir @ [''eve''], Dir),
      (gmail_dir @ [''eve'', ''LATEST.json''], File ''latest no dt''),
      ([''vault'', ''forms''], Dir),
      ([''vault'', ''forms'', ''intake''], Dir),
      ([''vault'', ''forms'', ''intake'', ''ann''], Dir),
      ([''vault'', ''forms'', ''intake'', ''ann'', ''LATEST.json''], File ''latest r1''),
      ([''vault'', ''forms'', ''intake'', ''ann'', ''dt=2024-01-01''], Dir),
      (ann_run, Dir),
      (ann_run @ [''manifest.json''], File ''manifest ann''),
      (ann_run @ [''part-000.jsonl.gz''], File ''ze\<newline>''),
      ([''registry''], Dir),
      (gmail_meta, File ''meta''),
      ([''out''], Dir)]"

definition sample_state :: state where
  "sample_state = \<lparr>files = sample_files, log_records = []\<rparr>"

text \<open>The same vault after an earlier run left a canonical file for \<open>ben\<close>.\<close>

definition stale_state :: state where
  "stale_state =
     \<lparr>files = sample_files @ [([''out'', ''email_gmail''], Dir), (ben_output, File ''stale\<newline>'')],
      log_records = []\<rparr>"



section \<open>Reading the state\<close>

lemma node_at_log_at [simp]: "node_at (log_at l m st) p = node_at st p"
  by (simp add: node_at_def log_at_def)

lemma files_log_at [simp]: "files (log_at l m st) = files st"
  by (simp add: log_at_def)

lemma log_records_log_at [simp]: "log_records (log_at l m st) = log_records st @ [(l, m)]"
  by (simp add: log_at_def)

lemma node_at_root [simp]: "node_at st [] = Some Dir"
  by (simp add: node_at_def)

lemma node_at_put_node:
  "node_at (put_node p n st) q = (if q = p \<and> p \<noteq> [] then Some n else node_at st q)"
  by (simp add: node_at_def put_node_def update_conv')

lemma node_at_del_node:
  "node_at (del_node p st) q = (if q = p \<and> p \<noteq> [] then None else node_at st q)"
  by (simp add: node_at_def del_node_def delete_conv')

lemma log_records_put_node [simp]: "log_records (put_node p n st) = log_records st"
  by (simp add: put_node_def)

lemma log_records_del_node [simp]: "log_records (del_node p st) = log_records st"
  by (simp add: del_node_def)

lemma path_exists_log_at [simp]: "path_exists (log_at l m st) p = path_exists st p"
  by (simp add: path_exists_def)

lemma read_text_log_at [simp]: "read_text (log_at l m st) p = read_text st p"
  by (simp add: read_text_def)

lemma gzip_open_read_log_at [simp]:
  "gzip_open_read rt (log_at l m st) p = gzip_open_read rt st p"
  by (simp add: gzip_open_read_def)

lemma open_append_log_at [simp]:
  "open_append p s (log_at l m st) = map_sum id (log_at l m) (open_append p s st)"
  by (simp add: open_append_def put_node_def log_at_def node_at_def
           split: option.splits node.splits)

section \<open>The part transformer: failure and success\<close>

text \<open>Claim C5. When the canonizer exits with a non-zero code, the part transformer
  raises the \<^verbatim>\<open>RuntimeError\<close> whose message carries the exit code and, when the
  standard error is not empty, its first 500 characters and no more; the files are as
  they were, so nothing has been appended to the output file.\<close>

theorem transform_gzip_part_nonzero_exit:
  assumes "gzip_open_read rt st part_path = Inr input_data"
      and "subprocess_run rt (can_command cfg transform_meta) input_data = Inr result"
      and "returncode result \<noteq> 0"
  shows "transform_gzip_part rt cfg part_path transform_meta output_file st =
           (Inl (CanonizerFailed (name_of part_path) (returncode result)
                   (if stderr result = [] then None else Some (take 500 (stderr result)))),
            log_at DEBUG (TransformingPart (name_of part_path)) st)
         \<and> files (snd (transform_gzip_part rt cfg part_path transform_meta output_file st))
             = files st
         \<and> length (take 500 (stderr result)) \<le> 500"
  using assms by (simp add: transform_gzip_part_def Let_def)

theorem transform_gzip_part_nonzero_exit_witness:
  "gzip_open_read sample_runtime sample_state (ben_run @ [''bad.jsonl.gz'']) = Inr ''bad''
   \<and> transform_gzip_part sample_runtime (sample_config [gmail_mapping])
        (ben_run @ [''bad.jsonl.gz'']) gmail_meta ben_output sample_state =
       (Inl (CanonizerFailed ''bad.jsonl.gz'' 2 (Some ''boom'')),
        log_at DEBUG (TransformingPart ''bad.jsonl.gz'') sample_state)"
proof -
  have g: "gzip_open_read sample_runtime sample_state (ben_run @ [''bad.jsonl.gz'']) = Inr ''bad''"
    by code_simp
  have r: "subprocess_run sample_runtime (can_command (sample_config [gmail_mapping]) gmail_meta)
             ''bad'' = Inr \<lparr>returncode = 2, stdout = [], stderr = ''boom''\<rparr>"
    by (simp add: sample_runtime_def)
  have z: "returncode \<lparr>returncode = 2, stdout = [], stderr = ''boom''\<rparr> \<noteq> 0"
    by simp
  have n: "name_of (ben_run @ [''bad.jsonl.gz'']) = ''bad.jsonl.gz''"
    by (simp add: name_of_def)
  show ?thesis
    using g transform_gzip_part_nonzero_exit [OF g r z, of ben_output] by (simp add: n)
qed

text \<open>Claim C6. When the part is read, the canonizer exits with code 0 and the output
  file can be opened for appending (it is a file, or it is missing and its directory
  exists), the part transformer returns the number of newline characters of the captured
  standard output, and the output file holds what it held before followed by that
  output; no other path changes.\<close>

theorem transform_gzip_part_appends:
  assumes "gzip_open_read rt st part_path = Inr input_data"
      and "subprocess_run rt (can_command cfg transform_meta) input_data = Inr result"
      and "returncode result = 0"
      and "node_at st output_file = Some (File old)
           \<or> (node_at st output_file = None \<and> old = []
               \<and> node_at st (butlast output_file) = Some Dir)"
  shows "\<exists>st'. transform_gzip_part rt cfg part_path transform_meta output_file st =
                 (Inr (count_list (stdout result) (CHR 0x0A)), st')
             \<and> node_at st' output_file = Some (File (old @ stdout result))
             \<and> (\<forall>q. q \<noteq> output_file \<longrightarrow> node_at st' q = node_at st q)"
  using assms
  by (auto simp: transform_gzip_part_def Let_def open_append_def node_at_put_node
                 count_newlines_def)

theorem transform_gzip_part_appends_witness:
  "node_at stale_state ben_output = Some (File ''stale\<newline>'')
   \<and> (\<exists>st'. transform_gzip_part sample_runtime (sample_config [gmail_mapping])
               (ben_run @ [''part-001.jsonl.gz'']) gmail_meta ben_output stale_state =
             (Inr 2, st')
           \<and> node_at st' ben_output = Some (File ''stale\<newline>b\<newline>c\<newline>''))"
proof -
  have g: "gzip_open_read sample_runtime stale_state (ben_run @ [''part-001.jsonl.gz''])
             = Inr ''b\<newline>c\<newline>''"
    by code_simp
  have r: "subprocess_run sample_runtime (can_command (sample_config [gmail_mapping]) gmail_meta)
             ''b\<newline>c\<newline>'' = Inr \<lparr>returncode = 0, stdout = ''b\<newline>c\<newline>'', stderr = []\<rparr>"
    by (simp add: sample_runtime_def)
  have z: "returncode \<lparr>returncode = 0, stdout = ''b\<newline>c\<newline>'', stderr = []\<rparr> = 0"
    by simp
  have o: "node_at stale_state ben_output = Some (File ''stale\<newline>'')"
    by code_simp
  show ?thesis
    using o transform_gzip_part_appends [OF g r z disjI1, OF o]
    by (auto simp: numeral_2_eq_2)
qed

section \<open>The manifest reader: early exits\<close>

text \<open>Claim C9. A manifest whose parts list is empty or missing makes
  \<^verbatim>\<open>_transform_from_manifest\<close> return 0 with one warning in the log and no
  exception; the files are exactly as before, so no output file is written and no
  directory is made.\<close>

theorem empty_parts_returns_zero:
  assumes "read_manifest rt st manifest_path = Inr m"
      and "parts m = None \<or> parts m = Some []"
  shows "transform_from_manifest rt cfg manifest_path transform_name registry out out_name st =
           (Inr 0, log_at WARNING (NoPartsFound manifest_path) st)
       \<and> files (snd (transform_from_manifest rt cfg manifest_path transform_name registry out
                        out_name st)) = files st"
  using assms by (auto simp: transform_from_manifest_def manifest_parts_def Let_def)

theorem empty_parts_returns_zero_witness:
  "read_manifest sample_runtime stale_state (none_run @ [''manifest.json'']) =
     Inr \<lparr>account = Some ''ben'', source = Some ''email/gmail'', parts = Some []\<rparr>
   \<and> transform_from_manifest sample_runtime (sample_config [gmail_mapping])
       (none_run @ [''manifest.json'']) ''gmail_v1'' [''registry''] [''out''] ''canonical''
       stale_state =
     (Inr 0, log_at WARNING (NoPartsFound (none_run @ [''manifest.json''])) stale_state)"
proof -
  have m: "read_manifest sample_runtime stale_state (none_run @ [''manifest.json'']) =
     Inr \<lparr>account = Some ''ben'', source = Some ''email/gmail'', parts = Some []\<rparr>"
    by code_simp
  have p: "parts \<lparr>account = Some ''ben'', source = Some ''email/gmail'', parts = Some []\<rparr> = None
           \<or> parts \<lparr>account = Some ''ben'', source = Some ''email/gmail'', parts = Some []\<rparr> = Some []"
    by simp
  show ?thesis
    using m empty_parts_returns_zero [OF m p] by simp
qed

text \<open>Claim C10. With a non-empty parts list and no transform metadata file, the
  call raises \<^verbatim>\<open>FileNotFoundError\<close> for the metadata path before the output
  directory is made and before the old output file is deleted: the files are exactly as
  before.\<close>

theorem missing_meta_raises_first:
  assumes "read_manifest rt st manifest_path = Inr m"
      and "parts m = Some ps" and "ps \<noteq> []"
      and "\<not> path_exists st (transform_meta_path registry transform_name)"
  shows "transform_from_manifest rt cfg manifest_path transform_name registry out out_name st =
           (Inl (TransformMetadataNotFound (transform_meta_path registry transform_name)),
            log_at INFO (ProcessingParts (length ps)) st)
       \<and> files (snd (transform_from_manifest rt cfg manifest_path transform_name registry out
                        out_name st)) = files st"
  using assms by (auto simp: transform_from_manifest_def manifest_parts_def Let_def)

theorem missing_meta_raises_first_witness:
  "\<not> path_exists stale_state (transform_meta_path [''registry''] ''intake_v1'')
   \<and> transform_from_manifest sample_runtime (sample_config [gmail_mapping])
       (ben_run @ [''manifest.json'']) ''intake_v1'' [''registry''] [''out''] ''canonical''
       stale_state =
     (Inl (TransformMetadataNotFound [''registry'', ''intake_v1.meta.yaml'']),
      log_at INFO (ProcessingParts 3) stale_state)
   \<and> node_at stale_state ben_output = Some (File ''stale\<newline>'')"
proof -
  let ?ps = "[\<lparr>seq = Some 2, path = Some ''part-002.jsonl.gz''\<rparr>,
              \<lparr>seq = Some 0, path = Some ''part-000.jsonl.gz''\<rparr>,
              \<lparr>seq = Some 1, path = Some ''part-001.jsonl.gz''\<rparr>]"
  let ?m = "\<lparr>account = Some ''ben'', source = Some ''email/gmail'', parts = Some ?ps\<rparr>"
  have m: "read_manifest sample_runtime stale_state (ben_run @ [''manifest.json'']) = Inr ?m"
    by code_simp
  have p: "parts ?m = Some ?ps" by simp
  have ne: "?ps \<noteq> []" by simp
  have x: "\<not> path_exists stale_state (transform_meta_path [''registry''] ''intake_v1'')"
    by code_simp
  have t: "transform_meta_path [''registry''] ''intake_v1'' = [''registry'', ''intake_v1.meta.yaml'']"
    by code_simp
  have o: "node_at stale_state ben_output = Some (File ''stale\<newline>'')"
    by code_simp
  show ?thesis
    using x o missing_meta_raises_first [OF m p ne x] by (simp add: t)
qed

section \<open>The loop over the parts\<close>

text \<open>A successful run of the loop, read off the state it started from: which parts
  were transformed, what was appended and counted, and which parts raised a warning. The
  output file must not be one of the part files, so that appending to it does not change
  what the later parts read.\<close>

lemma transformed_append [simp]: "transformed (a @ b) = transformed a @ transformed b"
  by (induction a rule: transformed.induct) auto

lemma part_warnings_append [simp]: "part_warnings (a @ b) = part_warnings a @ part_warnings b"
  by (induction a rule: part_warnings.induct) auto

lemma file_text_log_at [simp]: "file_text (log_at l m st) p = file_text st p"
  by (simp add: file_text_def)

lemma part_present_log_at [simp]: "part_present (log_at l m st) rd p = part_present st rd p"
  by (simp add: part_present_def)

lemma part_output_log_at [simp]:
  "part_output rt cfg (log_at l m st) rd meta p = part_output rt cfg st rd meta p"
  by (simp add: part_output_def)

lemma part_facts_cong:
  assumes "node_at a (part_file rd p) = node_at b (part_file rd p)"
  shows "part_present a rd p = part_present b rd p"
    and "part_output rt cfg a rd meta p = part_output rt cfg b rd meta p"
  using assms
  by (simp_all add: part_present_def part_output_def path_exists_def gzip_open_read_def
        read_text_def)

lemma transform_gzip_part_Inr:
  assumes "transform_gzip_part rt cfg pp meta out st = (Inr n, st')"
  shows "\<exists>input_data result.
           gzip_open_read rt st pp = Inr input_data
         \<and> subprocess_run rt (can_command cfg meta) input_data = Inr result
         \<and> n = count_newlines (stdout result)
         \<and> node_at st' out = Some (File (file_text st out @ stdout result))
         \<and> log_records st' = log_records st @ [(DEBUG, TransformingPart (name_of pp))]"
  using assms
  by (auto simp: transform_gzip_part_def Let_def open_append_def node_at_put_node file_text_def
           split: sum.splits if_splits option.splits node.splits)

lemma transform_gzip_part_frame:
  "transform_gzip_part rt cfg pp meta out st = (r, st') \<Longrightarrow> q \<noteq> out \<Longrightarrow>
     node_at st' q = node_at st q"
  by (auto simp: transform_gzip_part_def Let_def open_append_def node_at_put_node
           split: sum.splits if_splits option.splits node.splits)

lemma gzip_open_read_Inr_file:
  "gzip_open_read rt st p = Inr x \<Longrightarrow> \<exists>c. node_at st p = Some (File c)"
  by (auto simp: gzip_open_read_def read_text_def split: option.splits node.splits sum.splits)

lemma process_parts_Inr:
  assumes "process_parts rt cfg rd meta out ps t st = (Inr n, st')"
      and "out \<notin> part_file rd ` set ps"
  shows "n = t + sum_list (map (\<lambda>p. count_newlines (part_output rt cfg st rd meta p))
                       (filter (part_present st rd) ps))
       \<and> file_text st' out = file_text st out
            @ concat (map (part_output rt cfg st rd meta) (filter (part_present st rd) ps))
       \<and> transformed (log_records st') = transformed (log_records st)
            @ map (\<lambda>p. name_of (part_file rd p)) (filter (part_present st rd) ps)
       \<and> part_warnings (log_records st') = part_warnings (log_records st)
            @ map (part_file rd) (filter (\<lambda>p. \<not> part_present st rd p) ps)
       \<and> (\<forall>p\<in>set ps. node_at st (part_file rd p) \<noteq> Some Dir)
       \<and> (\<forall>q. q \<noteq> out \<longrightarrow> node_at st' q = node_at st q)"
  using assms
proof (induction ps arbitrary: t st)
  case Nil
  then show ?case by simp
next
  case (Cons p ps)
  from Cons.prems(1) obtain rel where rel: "path p = Some rel"
    by (cases "path p") auto
  have pf: "part_file rd p = joinpath rd rel"
    by (simp add: part_file_def rel)
  have apart: "out \<notin> part_file rd ` set ps" and pne: "part_file rd p \<noteq> out"
    using Cons.prems(2) by auto
  show ?case
  proof (cases "path_exists st (joinpath rd rel)")
    case False
    then have np: "\<not> part_present st rd p"
      by (simp add: part_present_def pf)
    have nd: "node_at st (part_file rd p) \<noteq> Some Dir"
      using False by (auto simp: path_exists_def pf)
    from Cons.prems(1) False rel
    have run: "process_parts rt cfg rd meta out ps t
                 (log_at WARNING (PartNotFound (joinpath rd rel)) st) = (Inr n, st')"
      by simp
    from Cons.IH [OF run apart] np nd show ?thesis
      by (simp add: pf)
  next
    case True
    then have pp: "part_present st rd p"
      by (simp add: part_present_def pf)
    from Cons.prems(1) True rel obtain recs st2 where
      tg: "transform_gzip_part rt cfg (joinpath rd rel) meta out st = (Inr recs, st2)"
      and run: "process_parts rt cfg rd meta out ps (t + recs) st2 = (Inr n, st')"
      by (auto split: prod.splits sum.splits)
    from transform_gzip_part_Inr [OF tg] obtain input_data result where
      g: "gzip_open_read rt st (joinpath rd rel) = Inr input_data"
      and r: "subprocess_run rt (can_command cfg meta) input_data = Inr result"
      and recs: "recs = count_newlines (stdout result)"
      and out2: "node_at st2 out = Some (File (file_text st out @ stdout result))"
      and log2: "log_records st2 = log_records st @ [(DEBUG, TransformingPart (name_of (joinpath rd rel)))]"
      by blast
    have po: "part_output rt cfg st rd meta p = stdout result"
      by (simp add: part_output_def pf g r)
    have nd: "node_at st (part_file rd p) \<noteq> Some Dir"
      using gzip_open_read_Inr_file [OF g] by (auto simp: pf)
    have frame: "\<And>q. q \<noteq> out \<Longrightarrow> node_at st2 q = node_at st q"
      using transform_gzip_part_frame [OF tg] by simp
    have same: "\<And>p'. p' \<in> set ps \<Longrightarrow> node_at st2 (part_file rd p') = node_at st (part_file rd p')"
    proof -
      fix p' assume "p' \<in> set ps"
      then have "part_file rd p' \<noteq> out" using apart by blast
      then show "node_at st2 (part_file rd p') = node_at st (part_file rd p')"
        by (rule frame)
    qed
    have pres: "filter (part_present st2 rd) ps = filter (part_present st rd) ps"
      by (rule filter_cong [OF refl]) (simp add: part_facts_cong(1) [OF same])
    have npres: "filter (\<lambda>p. \<not> part_present st2 rd p) ps = filter (\<lambda>p. \<not> part_present st rd p) ps"
      by (rule filter_cong [OF refl]) (simp add: part_facts_cong(1) [OF same])
    have outs: "map (part_output rt cfg st2 rd meta) (filter (part_present st rd) ps)
                = map (part_output rt cfg st rd meta) (filter (part_present st rd) ps)"
      by (rule map_cong [OF refl]) (simp add: part_facts_cong(2) [OF same])
    have cnts: "map (\<lambda>p. count_newlines (part_output rt cfg st2 rd meta p)) (filter (part_present st rd) ps)
                = map (\<lambda>p. count_newlines (part_output rt cfg st rd meta p)) (filter (part_present st rd) ps)"
      by (rule map_cong [OF refl]) (simp add: part_facts_cong(2) [OF same])
    have ft2: "file_text st2 out = file_text st out @ stdout result"
      by (simp add: file_text_def out2)
    have dirs: "\<forall>p'\<in>set ps. node_at st2 (part_file rd p') \<noteq> Some Dir \<Longrightarrow>
                \<forall>p'\<in>set ps. node_at st (part_file rd p') \<noteq> Some Dir"
      using same by simp
    from Cons.IH [OF run apart] pp nd frame dirs show ?thesis
      by (simp add: pres npres outs cnts ft2 log2 po recs pf)
  qed
qed

section \<open>From the manifest to the loop\<close>

lemma mkdir_from_Inr:
  "mkdir_from pre cs st = Inr st' \<Longrightarrow>
     log_records st' = log_records st
     \<and> (\<forall>q. node_at st' q = node_at st q \<or> (node_at st q = None \<and> node_at st' q = Some Dir))"
proof (induction cs arbitrary: pre st)
  case Nil
  then show ?case by simp
next
  case (Cons c cs)
  show ?case
  proof (cases "node_at st (pre @ [c])")
    case None
    with Cons.prems have "mkdir_from (pre @ [c]) cs (put_node (pre @ [c]) Dir st) = Inr st'"
      by simp
    from Cons.IH [OF this] None show ?thesis
      by (auto simp: node_at_put_node split: if_splits)
  next
    case (Some nd)
    with Cons.prems have "nd = Dir" and "mkdir_from (pre @ [c]) cs st = Inr st'"
      by (cases nd; simp)+
    from Cons.IH [OF this(2)] show ?thesis .
  qed
qed

lemma transform_from_manifest_Inr:
  assumes run: "transform_from_manifest rt cfg mp tn reg out on st = (Inr n, st')"
      and m: "read_manifest rt st mp = Inr m"
      and ne: "manifest_parts m \<noteq> []"
  shows "\<exists>st0. process_parts rt cfg (butlast mp) (transform_meta_path reg tn)
                 (output_file_path out m) (sort_key part_key (manifest_parts m)) 0 st0
               = (Inr n, st')
             \<and> node_at st0 (output_file_path out m) = None
             \<and> (\<forall>q. q \<noteq> output_file_path out m \<longrightarrow>
                    node_at st0 q = node_at st q
                    \<or> (node_at st q = None \<and> node_at st0 q = Some Dir))
             \<and> transformed (log_records st0) = transformed (log_records st)
             \<and> part_warnings (log_records st0) = part_warnings (log_records st)"
proof -
  let ?outf = "output_file_path out m"
  let ?st1 = "log_at INFO (ProcessingParts (length (manifest_parts m))) st"
  from run m ne obtain st2 where
    mk: "mkdir_parents (account_output_dir out m) ?st1 = Inr st2"
    by (auto simp: transform_from_manifest_def Let_def split: sum.splits if_splits)
  from mkdir_from_Inr [OF mk [unfolded mkdir_parents_def]]
  have log2: "log_records st2 = log_records st @ [(INFO, ProcessingParts (length (manifest_parts m)))]"
    and nodes2: "\<And>q. node_at st2 q = node_at st q \<or> (node_at st q = None \<and> node_at st2 q = Some Dir)"
    by auto
  show ?thesis
  proof (cases "path_exists st2 ?outf")
    case False
    with run m ne mk have "process_parts rt cfg (butlast mp) (transform_meta_path reg tn)
                 ?outf (sort_key part_key (manifest_parts m)) 0 st2 = (Inr n, st')"
      by (auto simp: transform_from_manifest_def Let_def split: sum.splits if_splits)
    moreover have "node_at st2 ?outf = None"
      using False by (auto simp: path_exists_def split: option.splits)
    ultimately show ?thesis using log2 nodes2 by (intro exI [of _ st2]) simp
  next
    case True
    let ?st3 = "log_at DEBUG (ClearingExisting ?outf) st2"
    from True run m ne mk obtain st4 where
      ul: "unlink ?outf ?st3 = Inr st4"
      and pp: "process_parts rt cfg (butlast mp) (transform_meta_path reg tn)
                 ?outf (sort_key part_key (manifest_parts m)) 0 st4 = (Inr n, st')"
      by (auto simp: transform_from_manifest_def Let_def split: sum.splits if_splits)
    from ul have st4: "st4 = del_node ?outf ?st3" and nr: "?outf \<noteq> []"
      by (auto simp: unlink_def split: option.splits node.splits)
    have "node_at st4 ?outf = None"
      by (simp add: st4 node_at_del_node nr)
    moreover have "\<forall>q. q \<noteq> ?outf \<longrightarrow> node_at st4 q = node_at st q
                    \<or> (node_at st q = None \<and> node_at st4 q = Some Dir)"
      using nodes2 by (simp add: st4 node_at_del_node)
    moreover have "transformed (log_records st4) = transformed (log_records st)"
      and "part_warnings (log_records st4) = part_warnings (log_records st)"
      by (simp_all add: st4 log2)
    ultimately show ?thesis using pp by (intro exI [of _ st4]) simp
  qed
qed

lemma transform_from_manifest_parts:
  assumes run: "transform_from_manifest rt cfg mp tn reg out on st = (Inr n, st')"
      and m: "read_manifest rt st mp = Inr m"
      and apart: "output_file_path out m \<notin> part_file (butlast mp) ` set (manifest_parts m)"
  shows "n = sum_list (map (\<lambda>p. count_newlines
                (part_output rt cfg st (butlast mp) (transform_meta_path reg tn) p))
              (parts_in_order st (butlast mp) (manifest_parts m)))
       \<and> transformed (log_records st') = transformed (log_records st)
            @ map (\<lambda>p. name_of (part_file (butlast mp) p))
                (parts_in_order st (butlast mp) (manifest_parts m))
       \<and> part_warnings (log_records st') = part_warnings (log_records st)
            @ map (part_file (butlast mp))
                (filter (\<lambda>p. \<not> part_present st (butlast mp) p)
                   (sort_key part_key (manifest_parts m)))
       \<and> (manifest_parts m \<noteq> [] \<longrightarrow>
            file_text st' (output_file_path out m)
            = concat (map (part_output rt cfg st (butlast mp) (transform_meta_path reg tn))
                (parts_in_order st (butlast mp) (manifest_parts m))))"
proof (cases "manifest_parts m = []")
  case True
  with run m show ?thesis
    by (auto simp: transform_from_manifest_def Let_def parts_in_order_def)
next
  case False
  let ?rd = "butlast mp" and ?meta = "transform_meta_path reg tn"
  let ?outf = "output_file_path out m" and ?ps = "sort_key part_key (manifest_parts m)"
  from transform_from_manifest_Inr [OF run m False] obtain st0 where
    pp: "process_parts rt cfg ?rd ?meta ?outf ?ps 0 st0 = (Inr n, st')"
    and out0: "node_at st0 ?outf = None"
    and nodes0: "\<And>q. q \<noteq> ?outf \<Longrightarrow> node_at st0 q = node_at st q
                    \<or> (node_at st q = None \<and> node_at st0 q = Some Dir)"
    and tr0: "transformed (log_records st0) = transformed (log_records st)"
    and pw0: "part_warnings (log_records st0) = part_warnings (log_records st)"
    by blast
  have apart': "?outf \<notin> part_file ?rd ` set ?ps"
    using apart by simp
  note loop = process_parts_Inr [OF pp apart']
  have same: "\<And>p. p \<in> set ?ps \<Longrightarrow> node_at st0 (part_file ?rd p) = node_at st (part_file ?rd p)"
  proof -
    fix p assume p: "p \<in> set ?ps"
    then have "part_file ?rd p \<noteq> ?outf" using apart' by (metis imageI)
    from nodes0 [OF this] loop p show "node_at st0 (part_file ?rd p) = node_at st (part_file ?rd p)"
      by auto
  qed
  have pres: "filter (part_present st0 ?rd) ?ps = parts_in_order st ?rd (manifest_parts m)"
    unfolding parts_in_order_def
    by (rule filter_cong [OF refl]) (simp add: part_facts_cong(1) [OF same])
  have npres: "filter (\<lambda>p. \<not> part_present st0 ?rd p) ?ps
               = filter (\<lambda>p. \<not> part_present st ?rd p) ?ps"
    by (rule filter_cong [OF refl]) (simp add: part_facts_cong(1) [OF same])
  have mem: "\<And>p. p \<in> set (parts_in_order st ?rd (manifest_parts m)) \<Longrightarrow> p \<in> set ?ps"
    by (simp add: parts_in_order_def)
  have outs: "map (part_output rt cfg st0 ?rd ?meta) (parts_in_order st ?rd (manifest_parts m))
              = map (part_output rt cfg st ?rd ?meta) (parts_in_order st ?rd (manifest_parts m))"
    by (rule map_cong [OF refl]) (simp add: part_facts_cong(2) [OF same [OF mem]])
  have cnts: "map (\<lambda>p. count_newlines (part_output rt cfg st0 ?rd ?meta p))
                 (parts_in_order st ?rd (manifest_parts m))
              = map (\<lambda>p. count_newlines (part_output rt cfg st ?rd ?meta p))
                 (parts_in_order st ?rd (manifest_parts m))"
    by (rule map_cong [OF refl]) (simp add: part_facts_cong(2) [OF same [OF mem]])
  have ft0: "file_text st0 ?outf = []"
    by (simp add: file_text_def out0)
  from loop show ?thesis
    by (simp add: pres npres outs cnts ft0 tr0 pw0)
qed

lemma parts_in_order_sorted: "sorted (map part_key (parts_in_order st rd ps))"
  unfolding parts_in_order_def by (simp add: sorted_filter)

lemma parts_in_order_mset:
  "mset (parts_in_order st rd ps) = mset (filter (part_present st rd) ps)"
  unfolding parts_in_order_def by simp


text \<open>Claim C4. In a run that returns, the parts handed to the canonizer are the parts
  of the manifest whose file exists, arranged in ascending order of \<open>seq\<close> (a missing
  \<open>seq\<close> counts as 0) whatever their order in the manifest and whatever gaps the
  numbers leave; the log shows them transformed one after the other in that order, and
  the output file holds their outputs concatenated in that order. The statement is for
  a manifest none of whose parts is the output file itself.\<close>

theorem parts_transformed_in_seq_order:
  assumes "transform_from_manifest rt cfg manifest_path transform_name registry out out_name st
             = (Inr n, st')"
      and "read_manifest rt st manifest_path = Inr m"
      and "output_file_path out m \<notin> part_file (butlast manifest_path) ` set (manifest_parts m)"
  shows "sorted (map part_key (parts_in_order st (butlast manifest_path) (manifest_parts m)))
       \<and> mset (parts_in_order st (butlast manifest_path) (manifest_parts m))
           = mset (filter (part_present st (butlast manifest_path)) (manifest_parts m))
       \<and> transformed (log_records st') = transformed (log_records st)
            @ map (\<lambda>p. name_of (part_file (butlast manifest_path) p))
                (parts_in_order st (butlast manifest_path) (manifest_parts m))
       \<and> (manifest_parts m \<noteq> [] \<longrightarrow>
            file_text st' (output_file_path out m)
            = concat (map (part_output rt cfg st (butlast manifest_path)
                             (transform_meta_path registry transform_name))
                (parts_in_order st (butlast manifest_path) (manifest_parts m))))"
proof -
  note all = transform_from_manifest_parts [OF assms]
  from all have a: "transformed (log_records st') = transformed (log_records st)
            @ map (\<lambda>p. name_of (part_file (butlast manifest_path) p))
                (parts_in_order st (butlast manifest_path) (manifest_parts m))"
    by (rule conjunct1 [OF conjunct2])
  from all have b: "manifest_parts m \<noteq> [] \<longrightarrow>
            file_text st' (output_file_path out m)
            = concat (map (part_output rt cfg st (butlast manifest_path)
                             (transform_meta_path registry transform_name))
                (parts_in_order st (butlast manifest_path) (manifest_parts m)))"
    by (rule conjunct2 [OF conjunct2 [OF conjunct2]])
  show ?thesis
    by (intro conjI parts_in_order_sorted parts_in_order_mset a b)
qed

theorem parts_transformed_in_seq_order_witness:
  "fst (transform_from_manifest sample_runtime (sample_config [gmail_mapping])
          (ben_run @ [''manifest.json'']) ''gmail_v1'' [''registry''] [''out''] ''canonical''
          stale_state) = Inr 4
   \<and> map part_key (manifest_parts
        \<lparr>account = Some ''ben'', source = Some ''email/gmail'',
         parts = Some [\<lparr>seq = Some 2, path = Some ''part-002.jsonl.gz''\<rparr>,
                       \<lparr>seq = Some 0, path = Some ''part-000.jsonl.gz''\<rparr>,
                       \<lparr>seq = Some 1, path = Some ''part-001.jsonl.gz''\<rparr>]\<rparr>) = [2, 0, 1]
   \<and> transformed (log_records (snd (transform_from_manifest sample_runtime
          (sample_config [gmail_mapping]) (ben_run @ [''manifest.json'']) ''gmail_v1''
          [''registry''] [''out''] ''canonical'' stale_state)))
       = [''part-000.jsonl.gz'', ''part-001.jsonl.gz'', ''part-002.jsonl.gz'']
   \<and> file_text (snd (transform_from_manifest sample_runtime
          (sample_config [gmail_mapping]) (ben_run @ [''manifest.json'']) ''gmail_v1''
          [''registry''] [''out''] ''canonical'' stale_state)) ben_output
       = ''a\<newline>b\<newline>c\<newline>d\<newline>''"
proof -
  let ?ps = "[\<lparr>seq = Some 2, path = Some ''part-002.jsonl.gz''\<rparr>,
              \<lparr>seq = Some 0, path = Some ''part-000.jsonl.gz''\<rparr>,
              \<lparr>seq = Some 1, path = Some ''part-001.jsonl.gz''\<rparr>]"
  let ?m = "\<lparr>account = Some ''ben'', source = Some ''email/gmail'', parts = Some ?ps\<rparr>"
  let ?cfg = "sample_config [gmail_mapping]"
  let ?mp = "ben_run @ [''manifest.json'']"
  let ?run = "transform_from_manifest sample_runtime ?cfg ?mp ''gmail_v1'' [''registry'']
                [''out''] ''canonical'' stale_state"
  have f: "fst ?run = Inr 4"
    by code_simp
  have run: "?run = (Inr 4, snd ?run)"
    using f by (metis prod.collapse)
  have m: "read_manifest sample_runtime stale_state ?mp = Inr ?m"
    by code_simp
  have apart: "output_file_path [''out''] ?m \<notin> part_file (butlast ?mp) ` set (manifest_parts ?m)"
    by code_simp
  have k: "map part_key (manifest_parts ?m) = [2, 0, 1]"
    by code_simp
  have ne: "manifest_parts ?m \<noteq> []"
    by code_simp
  have names: "map (\<lambda>p. name_of (part_file (butlast ?mp) p))
                 (parts_in_order stale_state (butlast ?mp) (manifest_parts ?m))
               = [''part-000.jsonl.gz'', ''part-001.jsonl.gz'', ''part-002.jsonl.gz'']"
    by code_simp
  have outs: "concat (map (part_output sample_runtime ?cfg stale_state (butlast ?mp)
                             (transform_meta_path [''registry''] ''gmail_v1''))
                 (parts_in_order stale_state (butlast ?mp) (manifest_parts ?m)))
               = ''a\<newline>b\<newline>c\<newline>d\<newline>''"
    by code_simp
  have o: "output_file_path [''out''] ?m = ben_output"
    by code_simp
  have l: "transformed (log_records stale_state) = []"
    by code_simp
  from parts_transformed_in_seq_order [OF run m apart]
  have "transformed (log_records (snd ?run)) = transformed (log_records stale_state)
            @ map (\<lambda>p. name_of (part_file (butlast ?mp) p))
                (parts_in_order stale_state (butlast ?mp) (manifest_parts ?m))"
    and "file_text (snd ?run) (output_file_path [''out''] ?m)
            = concat (map (part_output sample_runtime ?cfg stale_state (butlast ?mp)
                             (transform_meta_path [''registry''] ''gmail_v1''))
                (parts_in_order stale_state (butlast ?mp) (manifest_parts ?m)))"
    using ne by blast+
  then show ?thesis
    unfolding names outs o l using f k by simp
qed

section \<open>The manifest locator: what it returns\<close>

lemma is_dir_log_at [simp]: "is_dir (log_at l m st) p = is_dir st p"
  by (simp add: is_dir_def)

lemma node_at_log_update [simp]: "node_at (st\<lparr>log_records := lg\<rparr>) p = node_at st p"
  by (simp add: node_at_def)

lemma path_exists_log_update [simp]:
  "path_exists (st\<lparr>log_records := lg\<rparr>) p = path_exists st p"
  by (simp add: path_exists_def)

lemma read_text_log_update [simp]:
  "read_text (st\<lparr>log_records := lg\<rparr>) p = read_text st p"
  by (simp add: read_text_def)

lemma account_manifest_log_update [simp]:
  "account_manifest rt (st\<lparr>log_records := lg\<rparr>) a = account_manifest rt st a"
  by (auto simp: account_manifest_def split: sum.splits option.splits prod.splits)



lemma is_dir_log_update [simp]: "is_dir (st\<lparr>log_records := lg\<rparr>) p = is_dir st p"
  by (simp add: is_dir_def)











section \<open>Rebuilding the output file\<close>

text \<open>Two states that show the same nodes give the same result and again the same
  nodes; the log is not compared.\<close>

lemma node_at_put_node_fun:
  "p \<noteq> [] \<Longrightarrow> node_at (put_node p n st) = (node_at st)(p \<mapsto> n)"
  by (rule ext) (simp add: node_at_put_node)

lemma node_at_del_node_fun:
  "p \<noteq> [] \<Longrightarrow> node_at (del_node p st) = (node_at st)(p := None)"
  by (rule ext) (simp add: node_at_del_node)

lemma node_at_log_at_fun [simp]: "node_at (log_at l m st) = node_at st"
  by (rule ext) simp

lemma path_exists_cong: "node_at a = node_at b \<Longrightarrow> path_exists a p = path_exists b p"
  by (simp add: path_exists_def)

lemma gzip_open_read_cong:
  "node_at a = node_at b \<Longrightarrow> gzip_open_read rt a p = gzip_open_read rt b p"
  by (simp add: gzip_open_read_def read_text_def)

lemma open_append_cong:
  assumes "node_at a = node_at b"
  shows "map_sum id node_at (open_append p s a) = map_sum id node_at (open_append p s b)"
proof (cases "p = []")
  case True
  then show ?thesis by (simp add: open_append_def)
next
  case False
  then show ?thesis
    using assms
    by (auto simp: open_append_def node_at_put_node_fun split: option.splits node.splits)
qed

lemma transform_gzip_part_cong:
  assumes "node_at a = node_at b"
  shows "fst (transform_gzip_part rt cfg pp meta out a)
           = fst (transform_gzip_part rt cfg pp meta out b)
       \<and> node_at (snd (transform_gzip_part rt cfg pp meta out a))
           = node_at (snd (transform_gzip_part rt cfg pp meta out b))"
proof -
  let ?la = "log_at DEBUG (TransformingPart (name_of pp)) a"
  let ?lb = "log_at DEBUG (TransformingPart (name_of pp)) b"
  have l: "node_at ?la = node_at ?lb"
    using assms by simp
  note g = gzip_open_read_cong [OF l, of rt pp]
  show ?thesis
  proof (cases "gzip_open_read rt ?lb pp")
    case (Inl e)
    with g assms show ?thesis
      by (simp add: transform_gzip_part_def Let_def del: gzip_open_read_log_at)
  next
    case (Inr input_data)
    show ?thesis
    proof (cases "subprocess_run rt (can_command cfg meta) input_data")
      case (Inl e)
      with g Inr assms show ?thesis
        by (simp add: transform_gzip_part_def Let_def del: gzip_open_read_log_at)
    next
      case r: (Inr result)
      show ?thesis
      proof (cases "returncode result = 0")
        case False
        with g Inr r assms show ?thesis
          by (simp add: transform_gzip_part_def Let_def del: gzip_open_read_log_at)
      next
        case True
        from open_append_cong [OF l, of out "stdout result"]
        show ?thesis
          using g Inr r True assms
          by (cases "open_append out (stdout result) ?la";
              cases "open_append out (stdout result) ?lb")
             (simp_all add: transform_gzip_part_def Let_def
                del: gzip_open_read_log_at open_append_log_at)
      qed
    qed
  qed
qed

lemma process_parts_cong:
  "node_at a = node_at b \<Longrightarrow>
     fst (process_parts rt cfg rd meta out ps t a) = fst (process_parts rt cfg rd meta out ps t b)
   \<and> node_at (snd (process_parts rt cfg rd meta out ps t a))
       = node_at (snd (process_parts rt cfg rd meta out ps t b))"
proof (induction ps arbitrary: t a b)
  case Nil
  then show ?case by simp
next
  case (Cons p ps)
  show ?case
  proof (cases "path p")
    case None
    with Cons.prems show ?thesis by simp
  next
    case (Some rel)
    note ex = path_exists_cong [OF Cons.prems, of "joinpath rd rel"]
    show ?thesis
    proof (cases "path_exists a (joinpath rd rel)")
      case False
      have "node_at (log_at WARNING (PartNotFound (joinpath rd rel)) a)
            = node_at (log_at WARNING (PartNotFound (joinpath rd rel)) b)"
        using Cons.prems by simp
      from Cons.IH [OF this] False ex Some show ?thesis by simp
    next
      case True
      obtain ra a' where ta: "transform_gzip_part rt cfg (joinpath rd rel) meta out a = (ra, a')"
        by (cases "transform_gzip_part rt cfg (joinpath rd rel) meta out a")
      obtain rb b' where tb: "transform_gzip_part rt cfg (joinpath rd rel) meta out b = (rb, b')"
        by (cases "transform_gzip_part rt cfg (joinpath rd rel) meta out b")
      from transform_gzip_part_cong [OF Cons.prems, of rt cfg "joinpath rd rel" meta out] ta tb
      have eq: "ra = rb" and nodes: "node_at a' = node_at b'"
        by simp_all
      show ?thesis
      proof (cases ra)
        case (Inl e)
        with True ex Some ta tb eq nodes show ?thesis by auto
      next
        case (Inr recs)
        from Cons.IH [OF nodes, of "t + recs"] True ex Some ta tb eq Inr show ?thesis by auto
      qed
    qed
  qed
qed

lemma mkdir_from_over:
  assumes "node_at b = (node_at a)(outf \<mapsto> File other)"
      and "node_at a outf = Some (File old)"
      and "mkdir_from pre cs a = Inr a'"
  shows "\<exists>b'. mkdir_from pre cs b = Inr b'
            \<and> node_at b' = (node_at a')(outf \<mapsto> File other)
            \<and> node_at a' outf = Some (File old)"
  using assms
proof (induction cs arbitrary: pre a b)
  case Nil
  then show ?case by auto
next
  case (Cons c cs)
  show ?case
  proof (cases "node_at a (pre @ [c])")
    case None
    with Cons.prems(2) have ne: "pre @ [c] \<noteq> outf" by auto
    with None Cons.prems(1) have nb: "node_at b (pre @ [c]) = None" by simp
    from None Cons.prems(3)
    have run: "mkdir_from (pre @ [c]) cs (put_node (pre @ [c]) Dir a) = Inr a'" by simp
    have 1: "node_at (put_node (pre @ [c]) Dir b)
             = (node_at (put_node (pre @ [c]) Dir a))(outf \<mapsto> File other)"
      using Cons.prems(1) ne by (auto simp: node_at_put_node_fun)
    have 2: "node_at (put_node (pre @ [c]) Dir a) outf = Some (File old)"
      using Cons.prems(2) ne by (simp add: node_at_put_node)
    from Cons.IH [OF 1 2 run] nb show ?thesis by simp
  next
    case (Some nd)
    with Cons.prems(3) have nd: "nd = Dir" and run: "mkdir_from (pre @ [c]) cs a = Inr a'"
      by (cases nd; simp)+
    from Some nd Cons.prems(2) have ne: "pre @ [c] \<noteq> outf" by auto
    with Some nd Cons.prems(1) have nb: "node_at b (pre @ [c]) = Some Dir" by simp
    from Cons.IH [OF Cons.prems(1,2) run] nb show ?thesis by simp
  qed
qed

lemma read_manifest_cong:
  "node_at a mp = node_at b mp \<Longrightarrow> read_manifest rt a mp = read_manifest rt b mp"
  by (simp add: read_manifest_def read_text_def)

lemma rebuild_cong:
  assumes ma: "read_manifest rt a mp = Inr m"
      and pne: "manifest_parts m \<noteq> []"
      and olda: "node_at a (output_file_path out m) = Some (File old)"
      and nb: "node_at b = (node_at a)(output_file_path out m \<mapsto> File other)"
      and mpne: "mp \<noteq> output_file_path out m"
      and run: "transform_from_manifest rt cfg mp tn reg out on a = (Inr n, a')"
  shows "\<exists>b'. transform_from_manifest rt cfg mp tn reg out on b = (Inr n, b')
             \<and> node_at b' = node_at a'"
proof -
  let ?outf = "output_file_path out m"
  let ?meta = "transform_meta_path reg tn"
  let ?ps = "sort_key part_key (manifest_parts m)"
  let ?a1 = "log_at INFO (ProcessingParts (length (manifest_parts m))) a"
  let ?b1 = "log_at INFO (ProcessingParts (length (manifest_parts m))) b"
  have nr: "?outf \<noteq> []"
    using olda by auto
  have mb: "read_manifest rt b mp = Inr m"
    using ma mpne nb read_manifest_cong [of b mp a rt] by simp
  from run ma pne have metaa: "path_exists a ?meta"
    by (auto simp: transform_from_manifest_def Let_def split: sum.splits if_splits)
  have metab: "path_exists b ?meta"
    using metaa nb by (simp add: path_exists_def)
  from run ma pne obtain a2 where
    mka: "mkdir_parents (account_output_dir out m) ?a1 = Inr a2"
    by (auto simp: transform_from_manifest_def Let_def split: sum.splits if_splits)
  have nb1: "node_at ?b1 = (node_at ?a1)(?outf \<mapsto> File other)"
    using nb by simp
  have olda1: "node_at ?a1 ?outf = Some (File old)"
    using olda by simp
  from mkdir_from_over [OF nb1 olda1 mka [unfolded mkdir_parents_def]] obtain b2 where
    mkb: "mkdir_parents (account_output_dir out m) ?b1 = Inr b2"
    and nb2: "node_at b2 = (node_at a2)(?outf \<mapsto> File other)"
    and olda2: "node_at a2 ?outf = Some (File old)"
    by (auto simp: mkdir_parents_def)
  let ?a3 = "log_at DEBUG (ClearingExisting ?outf) a2"
  let ?b3 = "log_at DEBUG (ClearingExisting ?outf) b2"
  have exa: "path_exists a2 ?outf" and exb: "path_exists b2 ?outf"
    using olda2 nb2 by (simp_all add: path_exists_def)
  have ula: "unlink ?outf ?a3 = Inr (del_node ?outf ?a3)"
    and ulb: "unlink ?outf ?b3 = Inr (del_node ?outf ?b3)"
    using olda2 nb2 by (simp_all add: unlink_def)
  have same: "node_at (del_node ?outf ?a3) = node_at (del_node ?outf ?b3)"
    using nb2 nr by (simp add: node_at_del_node_fun)
  from run ma pne metaa mka exa ula
  have loopa: "process_parts rt cfg (butlast mp) ?meta ?outf ?ps 0 (del_node ?outf ?a3) = (Inr n, a')"
    by (simp add: transform_from_manifest_def Let_def)
  have tb: "transform_from_manifest rt cfg mp tn reg out on b
            = process_parts rt cfg (butlast mp) ?meta ?outf ?ps 0 (del_node ?outf ?b3)"
    using mb pne metab mkb exb ulb by (simp add: transform_from_manifest_def Let_def)
  from process_parts_cong [OF same, of rt cfg "butlast mp" ?meta ?outf ?ps 0] loopa
  have "fst (process_parts rt cfg (butlast mp) ?meta ?outf ?ps 0 (del_node ?outf ?b3)) = Inr n"
    and "node_at (snd (process_parts rt cfg (butlast mp) ?meta ?outf ?ps 0 (del_node ?outf ?b3)))
         = node_at a'"
    by simp_all
  then show ?thesis
    unfolding tb by (metis prod.collapse)
qed

text \<open>Claim C3, as amended. For a manifest with a non-empty parts list the old output
  file is deleted before any part is transformed: when a run returns, the same run
  started with any other text in the old output file returns the same count and leaves
  every path, the output file included, with the same node, so the output does not
  depend on what the file held before. A manifest whose parts list is empty or missing
  returns before the deletion, and the old output file keeps its text.\<close>

theorem output_rebuilt_from_scratch:
  assumes "read_manifest rt st manifest_path = Inr m"
      and "node_at st (output_file_path out m) = Some (File old)"
      and "manifest_path \<noteq> output_file_path out m"
  shows "(manifest_parts m = [] \<longrightarrow>
            node_at (snd (transform_from_manifest rt cfg manifest_path transform_name registry
                            out out_name st)) (output_file_path out m) = Some (File old))
       \<and> (\<forall>n st'. manifest_parts m \<noteq> []
              \<and> transform_from_manifest rt cfg manifest_path transform_name registry out
                   out_name st = (Inr n, st') \<longrightarrow>
            (\<exists>st''. transform_from_manifest rt cfg manifest_path transform_name registry out
                       out_name (put_node (output_file_path out m) (File other) st)
                     = (Inr n, st'')
                   \<and> node_at st'' = node_at st'))"
proof (intro conjI impI allI)
  assume "manifest_parts m = []"
  with assms(1,2)
  show "node_at (snd (transform_from_manifest rt cfg manifest_path transform_name registry
                            out out_name st)) (output_file_path out m) = Some (File old)"
    by (simp add: transform_from_manifest_def Let_def)
next
  fix n st'
  assume a: "manifest_parts m \<noteq> []
              \<and> transform_from_manifest rt cfg manifest_path transform_name registry out
                   out_name st = (Inr n, st')"
  have nr: "output_file_path out m \<noteq> []"
    using assms(2) by auto
  have nb: "node_at (put_node (output_file_path out m) (File other) st)
            = (node_at st)(output_file_path out m \<mapsto> File other)"
    by (rule node_at_put_node_fun [OF nr])
  from rebuild_cong [OF assms(1) conjunct1 [OF a] assms(2) nb assms(3) conjunct2 [OF a]]
  show "\<exists>st''. transform_from_manifest rt cfg manifest_path transform_name registry out
                       out_name (put_node (output_file_path out m) (File other) st)
                     = (Inr n, st'')
                   \<and> node_at st'' = node_at st'" .
qed

text \<open>Claim C3 as stated, which includes the manifest with an empty parts list, fails
  on the sample vault: with \<open>parts = []\<close> the old output file is neither deleted nor
  rebuilt, and what it holds after the call is what it held before.\<close>

theorem empty_parts_keep_old_output:
  "manifest_parts \<lparr>account = Some ''ben'', source = Some ''email/gmail'', parts = Some []\<rparr> = []
   \<and> read_manifest sample_runtime stale_state (none_run @ [''manifest.json''])
       = Inr \<lparr>account = Some ''ben'', source = Some ''email/gmail'', parts = Some []\<rparr>
   \<and> file_text (snd (transform_from_manifest sample_runtime (sample_config [gmail_mapping])
        (none_run @ [''manifest.json'']) ''gmail_v1'' [''registry''] [''out''] ''canonical''
        stale_state)) ben_output = ''stale\<newline>''
   \<and> file_text (snd (transform_from_manifest sample_runtime (sample_config [gmail_mapping])
        (none_run @ [''manifest.json'']) ''gmail_v1'' [''registry''] [''out''] ''canonical''
        (put_node ben_output (File ''other\<newline>'') stale_state))) ben_output = ''other\<newline>''"
proof -
  have 1: "manifest_parts \<lparr>account = Some ''ben'', source = Some ''email/gmail'', parts = Some []\<rparr> = []"
    by code_simp
  have 2: "read_manifest sample_runtime stale_state (none_run @ [''manifest.json''])
       = Inr \<lparr>account = Some ''ben'', source = Some ''email/gmail'', parts = Some []\<rparr>"
    by code_simp
  have 3: "file_text (snd (transform_from_manifest sample_runtime (sample_config [gmail_mapping])
        (none_run @ [''manifest.json'']) ''gmail_v1'' [''registry''] [''out''] ''canonical''
        stale_state)) ben_output = ''stale\<newline>''"
    by code_simp
  have 4: "file_text (snd (transform_from_manifest sample_runtime (sample_config [gmail_mapping])
        (none_run @ [''manifest.json'']) ''gmail_v1'' [''registry''] [''out''] ''canonical''
        (put_node ben_output (File ''other\<newline>'') stale_state))) ben_output = ''other\<newline>''"
    by code_simp
  show ?thesis
    using 1 2 3 4 by (intro conjI)
qed

theorem output_rebuilt_from_scratch_witness:
  "node_at stale_state ben_output = Some (File ''stale\<newline>'')
   \<and> node_at (snd (transform_from_manifest sample_runtime (sample_config [gmail_mapping])
        (none_run @ [''manifest.json'']) ''gmail_v1'' [''registry''] [''out''] ''canonical''
        stale_state)) ben_output = Some (File ''stale\<newline>'')
   \<and> fst (transform_from_manifest sample_runtime (sample_config [gmail_mapping])
        (ben_run @ [''manifest.json'']) ''gmail_v1'' [''registry''] [''out''] ''canonical''
        stale_state) = Inr 4
   \<and> (\<exists>st''. transform_from_manifest sample_runtime (sample_config [gmail_mapping])
        (ben_run @ [''manifest.json'']) ''gmail_v1'' [''registry''] [''out''] ''canonical''
        (put_node ben_output (File ''other\<newline>'') stale_state) = (Inr 4, st'')
       \<and> node_at st'' = node_at (snd (transform_from_manifest sample_runtime
            (sample_config [gmail_mapping]) (ben_run @ [''manifest.json'']) ''gmail_v1''
            [''registry''] [''out''] ''canonical'' stale_state)))"
proof -
  let ?ps = "[\<lparr>seq = Some 2, path = Some ''part-002.jsonl.gz''\<rparr>,
              \<lparr>seq = Some 0, path = Some ''part-000.jsonl.gz''\<rparr>,
              \<lparr>seq = Some 1, path = Some ''part-001.jsonl.gz''\<rparr>]"
  let ?m = "\<lparr>account = Some ''ben'', source = Some ''email/gmail'', parts = Some ?ps\<rparr>"
  let ?e = "\<lparr>account = Some ''ben'', source = Some ''email/gmail'', parts = Some []\<rparr>"
  let ?cfg = "sample_config [gmail_mapping]"
  let ?run = "transform_from_manifest sample_runtime ?cfg (ben_run @ [''manifest.json''])
                ''gmail_v1'' [''registry''] [''out''] ''canonical'' stale_state"
  have m: "read_manifest sample_runtime stale_state (ben_run @ [''manifest.json'']) = Inr ?m"
    by code_simp
  have e: "read_manifest sample_runtime stale_state (none_run @ [''manifest.json'']) = Inr ?e"
    by code_simp
  have om: "output_file_path [''out''] ?m = ben_output"
    by code_simp
  have oe: "output_file_path [''out''] ?e = ben_output"
    by code_simp
  have old: "node_at stale_state ben_output = Some (File ''stale\<newline>'')"
    by code_simp
  have nm: "ben_run @ [''manifest.json''] \<noteq> ben_output"
    by code_simp
  have ne: "none_run @ [''manifest.json''] \<noteq> ben_output"
    by code_simp
  have pe: "manifest_parts ?e = []"
    by code_simp
  have pm: "manifest_parts ?m \<noteq> []"
    by code_simp
  have f: "fst ?run = Inr 4"
    by code_simp
  have run: "?run = (Inr 4, snd ?run)"
    using f by (metis prod.collapse)
  from output_rebuilt_from_scratch [where cfg = "?cfg" and transform_name = "''gmail_v1''"
         and registry = "[''registry'']" and out_name = "''canonical''",
         OF e old [folded oe] ne [folded oe]] pe
  have 1: "node_at (snd (transform_from_manifest sample_runtime ?cfg
        (none_run @ [''manifest.json'']) ''gmail_v1'' [''registry''] [''out''] ''canonical''
        stale_state)) ben_output = Some (File ''stale\<newline>'')"
    unfolding oe by blast
  from output_rebuilt_from_scratch [where cfg = "?cfg" and transform_name = "''gmail_v1''"
         and registry = "[''registry'']" and out_name = "''canonical''"
         and other = "''other\<newline>''", OF m old [folded om] nm [folded om]] pm run
  have 2: "\<exists>st''. transform_from_manifest sample_runtime ?cfg
        (ben_run @ [''manifest.json'']) ''gmail_v1'' [''registry''] [''out''] ''canonical''
        (put_node ben_output (File ''other\<newline>'') stale_state) = (Inr 4, st'')
       \<and> node_at st'' = node_at (snd ?run)"
    unfolding om by blast
  show ?thesis
    using old 1 f 2 by (intro conjI)
qed

section \<open>The stage result\<close>

text \<open>The glob of the stage lists entries of the output directory itself, never of a
  directory below it; the result is a failure exactly when there are errors and that
  list is empty.\<close>

lemma glob_jsonl_direct: "q \<in> set (glob_jsonl st d) \<Longrightarrow> butlast q = d"
  by (auto simp: glob_jsonl_def children_def split: if_splits)

lemma stage_outcome_success:
  "success (stage_outcome cfg n errs outs) = (errs = [] \<or> outs \<noteq> [])"
  by (simp add: stage_outcome_def)

lemma execute_result:
  "process_mappings rt cfg (mappings cfg) (0, [])
     (log_at INFO (CanonizeStarted (length (mappings cfg))) st) = (Inr (n, errs), st') \<Longrightarrow>
   execute rt cfg st = (Inr (stage_outcome cfg n errs (glob_jsonl st' (output_dir cfg))), st')"
  by (simp add: execute_def)

text \<open>Claim C1. The declared output files should be every \<open>.jsonl\<close> file anywhere
  under the output directory, the per-account files the stage itself wrote included. On
  the sample vault with the gmail mapping the stage succeeds with 4 records and writes
  \<open>out/email_gmail/ben.jsonl\<close>, yet the output files it declares are none: the glob
  does not look below the output directory, where the stage puts every file it writes.\<close>

theorem declared_outputs_miss_account_files:
  "fst (execute sample_runtime (sample_config [gmail_mapping]) sample_state)
     = Inr \<lparr>stage_name = ''canonize'', success = True, duration_seconds = 0,
            records_processed = Some 4, output_files = Some [],
            metadata = Some [(''transform_registry'', MStr ''/registry''),
                             (''mappings_applied'', MNat 1),
                             (''manifests_processed'', MNat 4),
                             (''errors'', MNat 0)],
            error_message = None\<rparr>
   \<and> node_at (snd (execute sample_runtime (sample_config [gmail_mapping]) sample_state))
       [''out'', ''email_gmail'', ''ben.jsonl''] = Some (File ''a\<newline>b\<newline>c\<newline>d\<newline>'')"
proof -
  have 1: "fst (execute sample_runtime (sample_config [gmail_mapping]) sample_state)
     = Inr \<lparr>stage_name = ''canonize'', success = True, duration_seconds = 0,
            records_processed = Some 4, output_files = Some [],
            metadata = Some [(''transform_registry'', MStr ''/registry''),
                             (''mappings_applied'', MNat 1),
                             (''manifests_processed'', MNat 4),
                             (''errors'', MNat 0)],
            error_message = None\<rparr>"
    by code_simp
  have 2: "node_at (snd (execute sample_runtime (sample_config [gmail_mapping]) sample_state))
       [''out'', ''email_gmail'', ''ben.jsonl''] = Some (File ''a\<newline>b\<newline>c\<newline>d\<newline>'')"
    by code_simp
  show ?thesis using 1 2 by (intro conjI)
qed

text \<open>Claim C2. A run in which the gmail mapping succeeds and writes its canonical file
  while the only manifest of the intake mapping fails (its transform metadata is
  missing) should end with \<open>success = True\<close> and \<open>errors = 1\<close> in the metadata. The
  stage reports \<open>success = False\<close> with the message for one failed transform: the
  file it wrote lies below the output directory, so the collected list is empty.\<close>

theorem partial_success_reported_as_failure:
  "fst (execute sample_runtime (sample_config [gmail_mapping, intake_mapping]) sample_state)
     = Inr \<lparr>stage_name = ''canonize'', success = False, duration_seconds = 0,
            records_processed = None, output_files = None, metadata = None,
            error_message = Some (TransformsFailed 1
              (FailedToTransform (ann_run @ [''manifest.json''])
                 (TransformMetadataNotFound [''registry'', ''intake_v1.meta.yaml''])))\<rparr>
   \<and> node_at (snd (execute sample_runtime (sample_config [gmail_mapping, intake_mapping])
                     sample_state))
       [''out'', ''email_gmail'', ''ben.jsonl''] = Some (File ''a\<newline>b\<newline>c\<newline>d\<newline>'')"
proof -
  have 1: "fst (execute sample_runtime (sample_config [gmail_mapping, intake_mapping]) sample_state)
     = Inr \<lparr>stage_name = ''canonize'', success = False, duration_seconds = 0,
            records_processed = None, output_files = None, metadata = None,
            error_message = Some (TransformsFailed 1
              (FailedToTransform (ann_run @ [''manifest.json''])
                 (TransformMetadataNotFound [''registry'', ''intake_v1.meta.yaml''])))\<rparr>"
    by code_simp
  have 2: "node_at (snd (execute sample_runtime (sample_config [gmail_mapping, intake_mapping])
                     sample_state))
       [''out'', ''email_gmail'', ''ben.jsonl''] = Some (File ''a\<newline>b\<newline>c\<newline>d\<newline>'')"
    by code_simp
  show ?thesis using 1 2 by (intro conjI)
qed

section \<open>Missing parts\<close>

text \<open>When the loop over the parts returns: every part names a path, every part that is
  there can be decompressed and makes the canonizer exit with code 0, and the output
  file can be opened for appending.\<close>

lemma part_transformable_log_at [simp]:
  "part_transformable rt cfg (log_at l m st) rd meta p = part_transformable rt cfg st rd meta p"
  by (simp add: part_transformable_def)












text \<open>When the run of a manifest returns: the manifest can be read, the transform
  metadata exists, no regular file stands where the output directory or a directory
  above it has to be, and the loop over the parts returns.\<close>

lemma is_dir_cong: "node_at a q = node_at b q \<Longrightarrow> is_dir a q = is_dir b q"
  by (simp add: is_dir_def)






end
